theory Spec2Isabelle
  imports Complex_Main
begin

section \<open>JavaScript values\<close>

text \<open>
  A JavaScript number is NaN, one of the two infinities, or a finite value. The two
  zeros are not told apart (the component never divides by one). A property of the
  edited object holds \<^verbatim>\<open>undefined\<close>, \<^verbatim>\<open>null\<close> or a number; these are the
  values \<^verbatim>\<open>_getFinalValueString\<close> and the constructor tell apart.
\<close>

datatype jsnum = NaN | PInf | NInf | Fin real

datatype jsval = Undefined | Null | Number jsnum

text \<open>\<^verbatim>\<open>a < b\<close> on numbers: every comparison with NaN is false.\<close>

fun num_lt :: "jsnum \<Rightarrow> jsnum \<Rightarrow> bool" where
  "num_lt NaN b = False"
| "num_lt a NaN = False"
| "num_lt PInf b = False"
| "num_lt NInf NInf = False"
| "num_lt NInf b = True"
| "num_lt (Fin x) PInf = True"
| "num_lt (Fin x) NInf = False"
| "num_lt (Fin x) (Fin y) = (x < y)"

definition num_gt :: "jsnum \<Rightarrow> jsnum \<Rightarrow> bool" where
  "num_gt a b = num_lt b a"

text \<open>\<^verbatim>\<open>a === b\<close>: NaN is not equal to itself; values of different types differ.\<close>

fun num_strict_eq :: "jsnum \<Rightarrow> jsnum \<Rightarrow> bool" where
  "num_strict_eq NaN b = False"
| "num_strict_eq a NaN = False"
| "num_strict_eq a b = (a = b)"

fun strict_eq :: "jsval \<Rightarrow> jsval \<Rightarrow> bool" where
  "strict_eq Undefined Undefined = True"
| "strict_eq Null Null = True"
| "strict_eq (Number a) (Number b) = num_strict_eq a b"
| "strict_eq a b = False"

text \<open>Truthiness of a number (\<^verbatim>\<open>if (props.step)\<close>): 0 and NaN are falsy.\<close>

fun truthy :: "jsnum \<Rightarrow> bool" where
  "truthy NaN = False"
| "truthy (Fin x) = (x \<noteq> 0)"
| "truthy a = True"

text \<open>ToNumber, applied by \<^verbatim>\<open>+\<close> to a non-number operand.\<close>

fun to_number :: "jsval \<Rightarrow> jsnum" where
  "to_number Undefined = NaN"
| "to_number Null = Fin 0"
| "to_number (Number n) = n"

text \<open>\<^verbatim>\<open>String.prototype.indexOf\<close> for a one-character pattern: -1 when absent.\<close>

fun indexOf :: "string \<Rightarrow> char \<Rightarrow> int" where
  "indexOf [] c = - 1"
| "indexOf (x # xs) c =
     (if x = c then 0 else (let i = indexOf xs c in if i < 0 then - 1 else i + 1))"

section \<open>The platform\<close>

text \<open>
  The built-ins of the JavaScript runtime that the component calls. Floating-point
  arithmetic, the transcendental functions and the conversions between numbers and
  text are the platform's, not the component's: every function of the component takes
  them as the parameter \<open>rt\<close>, and what is proved holds for each runtime.
\<close>

record js_runtime =
  num_toString :: "jsnum \<Rightarrow> string"
  num_toFixed :: "jsnum \<Rightarrow> nat \<Rightarrow> string"
  parseFloat :: "string \<Rightarrow> jsnum"
  num_add :: "jsnum \<Rightarrow> jsnum \<Rightarrow> jsnum"
  num_sub :: "jsnum \<Rightarrow> jsnum \<Rightarrow> jsnum"
  num_mul :: "jsnum \<Rightarrow> jsnum \<Rightarrow> jsnum"
  num_div :: "jsnum \<Rightarrow> jsnum \<Rightarrow> jsnum"
  Math_pow :: "jsnum \<Rightarrow> jsnum \<Rightarrow> jsnum"
  Math_round :: "jsnum \<Rightarrow> jsnum"
  Math_floor :: "jsnum \<Rightarrow> jsnum"
  Math_log :: "jsnum \<Rightarrow> jsnum"
  Math_abs :: "jsnum \<Rightarrow> jsnum"
  Math_LN10 :: jsnum

section \<open>The component\<close>

text \<open>
  The names below are those of \<^verbatim>\<open>InspectorNumber.tsx\<close>, the private members
  without their leading underscore.
\<close>

text \<open>
  \<^verbatim>\<open>IInspectorNumberProps\<close>. An optional number is \<open>None\<close> when the prop is
  undefined. A callback prop is opaque: the record says whether it was given, and each
  call of it is recorded among the effects. The props that only the rendering reads
  (label, noSlider, noLabel, noUndoRedo) are left out.
\<close>

record IInspectorNumberProps =
  property :: string
  step :: "jsnum option"
  min_p :: "jsnum option"
  max_p :: "jsnum option"
  defaultValue :: "jsnum option"
  onChange :: bool
  onFinishChange :: bool

text \<open>
  The first argument of \<^verbatim>\<open>InspectorNotifier.NotifyChange\<close> and the second of
  \<^verbatim>\<open>Register\<close>: the reference \<^verbatim>\<open>props.object\<close>, or a primitive value.
\<close>

datatype notify_target = TargetObject | TargetValue jsval

text \<open>
  What the component does to the world outside it, in order: calls of the callback
  props, of the notifier and of the document's listener registry. The natural number of
  a notifier call is the identity of the caller; that of a listener call is the identity
  of the closure.
\<close>

datatype effect =
    CallOnChange jsnum
  | CallOnFinishChange jsval jsval
  | NotifyChange notify_target nat
  | Register nat notify_target
  | Unregister nat
  | AddEventListener string nat
  | RemoveEventListener string nat

text \<open>
  An instance of \<^verbatim>\<open>InspectorNumber\<close> with the part of the world it touches:
  \<open>object\<close> is the property map of \<^verbatim>\<open>props.object\<close> (an absent property reads
  \<^verbatim>\<open>undefined\<close>), \<open>state_value\<close> is \<^verbatim>\<open>this.state.value\<close>, \<open>input\<close> says
  whether the ref \<^verbatim>\<open>_input\<close> is set, \<open>ident\<close> is the identity of \<^verbatim>\<open>this\<close>,
  \<open>document_listeners\<close> holds the listeners this instance has on \<^verbatim>\<open>document\<close>,
  \<open>fresh\<close> is the identity of the next closure it creates, and \<open>effects\<close> what it has done
  to the outside so far. The callbacks and the notifier's observers are taken not to write to the
  object nor to the instance while they run.
\<close>

record InspectorNumber =
  props :: IInspectorNumberProps
  object :: "string \<Rightarrow> jsval"
  state_value :: string
  mouseMoveListener :: "nat option"
  mouseUpListener :: "nat option"
  input :: bool
  precision :: nat
  impliedStep :: jsnum
  isFocused :: bool
  lastMousePosition :: jsnum
  initialValue :: jsval
  ident :: nat
  document_listeners :: "(string \<times> nat) list"
  fresh :: nat
  effects :: "effect list"

datatype error = NotANumber

definition emit :: "effect \<Rightarrow> InspectorNumber \<Rightarrow> InspectorNumber" where
  "emit e c = c\<lparr>effects := effects c @ [e]\<rparr>"

definition read_property :: "InspectorNumber \<Rightarrow> jsval" where
  "read_property c = object c (property (props c))"

definition write_property :: "jsval \<Rightarrow> InspectorNumber \<Rightarrow> InspectorNumber" where
  "write_property v c = c\<lparr>object := (object c)(property (props c) := v)\<rparr>"

definition setState :: "string \<Rightarrow> InspectorNumber \<Rightarrow> InspectorNumber" where
  "setState s c = c\<lparr>state_value := s\<rparr>"

subsection \<open>The precision helpers\<close>

definition NumDecimals :: "js_runtime \<Rightarrow> jsnum \<Rightarrow> nat" where
  "NumDecimals rt v =
     (let valueString = num_toString rt v;
          dotIndex = indexOf valueString CHR ''.''
      in if dotIndex > - 1 then nat (int (length valueString) - dotIndex - 1) else 0)"

definition RoundToDecimal :: "js_runtime \<Rightarrow> jsnum \<Rightarrow> nat \<Rightarrow> jsnum" where
  "RoundToDecimal rt v decimals =
     (let tenTo = Math_pow rt (Fin 10) (Fin (real decimals))
      in num_div rt (Math_round rt (num_mul rt v tenTo)) tenTo)"

text \<open>
  \<^verbatim>\<open>_getFinalValueString\<close> reads \<^verbatim>\<open>this._precision\<close> only, so it takes the
  precision. (\<^verbatim>\<open>toFixed\<close> raises a RangeError above 100 digits; a precision is
  the length of part of a rendered number.)
\<close>

definition getFinalValueString :: "js_runtime \<Rightarrow> nat \<Rightarrow> jsval \<Rightarrow> string" where
  "getFinalValueString rt prec v =
     (case v of
        Undefined \<Rightarrow> ''0''
      | Null \<Rightarrow> ''0''
      | Number n \<Rightarrow>
          (let decimals = NumDecimals rt n
           in if decimals > prec then num_toFixed rt n prec else num_toString rt n))"

subsection \<open>Construction and mounting\<close>

text \<open>The step when no usable \<^verbatim>\<open>props.step\<close> is given (the else branch).\<close>

definition default_step :: "js_runtime \<Rightarrow> jsnum \<Rightarrow> jsnum" where
  "default_step rt v =
     (if num_strict_eq v (Fin 0) then Fin 1
      else num_div rt
             (Math_pow rt (Fin 10)
                (Math_floor rt (num_div rt (Math_log rt (Math_abs rt v)) (Math_LN10 rt))))
             (Fin 10))"

definition initial_impliedStep :: "js_runtime \<Rightarrow> jsnum option \<Rightarrow> jsnum \<Rightarrow> jsnum" where
  "initial_impliedStep rt st v =
     (case st of
        Some s \<Rightarrow> if truthy s then s else default_step rt v
      | None \<Rightarrow> default_step rt v)"

text \<open>
  The constructor, given the props, the property map of \<^verbatim>\<open>props.object\<close> and the
  identity of the new instance. It writes the default into the object when the property
  is not a number, and throws when there is still no number. (\<^verbatim>\<open>props.object\<close> is
  taken to be an object; with none, reading its property throws before anything else.)
\<close>

definition constructor ::
  "js_runtime \<Rightarrow> IInspectorNumberProps \<Rightarrow> (string \<Rightarrow> jsval) \<Rightarrow> nat \<Rightarrow> error + InspectorNumber" where
  "constructor rt p obj i =
     (let v0 = obj (property p);
          (v1, obj1) =
            (case v0 of
               Number n \<Rightarrow> (v0, obj)
             | _ \<Rightarrow> (case defaultValue p of
                        Some d \<Rightarrow> (Number d, obj(property p := Number d))
                      | None \<Rightarrow> (v0, obj)))
      in case v1 of
           Number n \<Rightarrow>
             (let st = initial_impliedStep rt (step p) n;
                  prec = NumDecimals rt st
              in Inr \<lparr>props = p, object = obj1,
                      state_value = getFinalValueString rt prec v1,
                      mouseMoveListener = None, mouseUpListener = None,
                      input = False, precision = prec, impliedStep = st,
                      isFocused = False, lastMousePosition = Fin 0,
                      initialValue = v1, ident = i,
                      document_listeners = [], fresh = 0, effects = []\<rparr>)
         | _ \<Rightarrow> Inl NotANumber)"

text \<open>The ref callback of the input field, run when the field is rendered.\<close>

definition set_input_ref :: "bool \<Rightarrow> InspectorNumber \<Rightarrow> InspectorNumber" where
  "set_input_ref r c = c\<lparr>input := r\<rparr>"

text \<open>The callback handed to \<^verbatim>\<open>InspectorNotifier.Register\<close>.\<close>

definition notifier_callback :: "js_runtime \<Rightarrow> InspectorNumber \<Rightarrow> InspectorNumber" where
  "notifier_callback rt c =
     (let v = read_property c in setState (getFinalValueString rt (precision c) v) c)"

definition componentDidMount :: "InspectorNumber \<Rightarrow> InspectorNumber" where
  "componentDidMount c = emit (Register (ident c) TargetObject) c"

definition componentWillUnmount :: "InspectorNumber \<Rightarrow> InspectorNumber" where
  "componentWillUnmount c = emit (Unregister (ident c)) c"

subsection \<open>The handlers\<close>

definition handleInputFocused :: "InspectorNumber \<Rightarrow> InspectorNumber" where
  "handleInputFocused c = c\<lparr>isFocused := True\<rparr>"

definition handleValueFinishChanged :: "js_runtime \<Rightarrow> InspectorNumber \<Rightarrow> InspectorNumber" where
  "handleValueFinishChanged rt c =
     (let v = read_property c
      in if strict_eq v (initialValue c) then c
         else
           (let c1 = (if onFinishChange (props c)
                      then emit (CallOnFinishChange v (initialValue c)) c else c);
                c2 = emit (NotifyChange TargetObject (ident c1)) c1;
                c3 = c2\<lparr>initialValue := v\<rparr>
            in setState (getFinalValueString rt (precision c3) v) c3))"

definition handleInputBlurred :: "js_runtime \<Rightarrow> InspectorNumber \<Rightarrow> InspectorNumber" where
  "handleInputBlurred rt c = handleValueFinishChanged rt (c\<lparr>isFocused := False\<rparr>)"

text \<open>The block under the comment \<^verbatim>\<open>// Min / max\<close> of \<^verbatim>\<open>_handleValueChanged\<close>.\<close>

definition apply_min_max :: "IInspectorNumberProps \<Rightarrow> jsnum \<Rightarrow> jsnum" where
  "apply_min_max p v0 =
     (let v1 = (case min_p p of
                  Some m \<Rightarrow> if num_lt v0 m then m else v0
                | None \<Rightarrow> v0)
      in case max_p p of
           Some M \<Rightarrow> if num_gt v1 M then M else v1
         | None \<Rightarrow> v1)"

definition handleValueChanged ::
  "js_runtime \<Rightarrow> string \<Rightarrow> bool \<Rightarrow> InspectorNumber \<Rightarrow> InspectorNumber" where
  "handleValueChanged rt text fromMouseEvent c =
     (if text = [] then setState text c
      else
        (let parsedValue = apply_min_max (props c) (parseFloat rt text);
             c1 = write_property (Number parsedValue) c;
             c2 = (if fromMouseEvent
                   then setState (num_toString rt (RoundToDecimal rt parsedValue (precision c1))) c1
                   else setState text c1);
             c3 = (if onChange (props c2) then emit (CallOnChange parsedValue) c2 else c2)
         in emit (NotifyChange (TargetValue (read_property c3)) (ident c3)) c3))"

definition handleSliderChanged :: "js_runtime \<Rightarrow> jsnum \<Rightarrow> InspectorNumber \<Rightarrow> InspectorNumber" where
  "handleSliderChanged rt v c = handleValueChanged rt (num_toString rt v) True c"

text \<open>
  The closure \<^verbatim>\<open>_mouseMoveListener\<close>, run with the event's \<^verbatim>\<open>pageY\<close>;
  \<open>drag_value\<close> is its \<^verbatim>\<open>newValue\<close>.
\<close>

definition drag_value :: "js_runtime \<Rightarrow> jsnum \<Rightarrow> InspectorNumber \<Rightarrow> jsnum" where
  "drag_value rt pageY c =
     (let delta = num_sub rt (lastMousePosition c) pageY
      in num_add rt (to_number (read_property c)) (num_mul rt delta (impliedStep c)))"

definition mouseMove :: "js_runtime \<Rightarrow> jsnum \<Rightarrow> InspectorNumber \<Rightarrow> InspectorNumber" where
  "mouseMove rt pageY c =
     (let newValue = drag_value rt pageY c;
          c1 = handleValueChanged rt (num_toString rt newValue) True c
      in c1\<lparr>lastMousePosition := pageY\<rparr>)"

definition addEventListener :: "string \<Rightarrow> nat \<Rightarrow> InspectorNumber \<Rightarrow> InspectorNumber" where
  "addEventListener ty l c =
     emit (AddEventListener ty l) (c\<lparr>document_listeners := document_listeners c @ [(ty, l)]\<rparr>)"

definition removeEventListener :: "string \<Rightarrow> nat \<Rightarrow> InspectorNumber \<Rightarrow> InspectorNumber" where
  "removeEventListener ty l c =
     emit (RemoveEventListener ty l) (c\<lparr>document_listeners := remove1 (ty, l) (document_listeners c)\<rparr>)"

definition handleInputClicked :: "jsnum \<Rightarrow> InspectorNumber \<Rightarrow> InspectorNumber" where
  "handleInputClicked pageY c =
     (if \<not> isFocused c then c
      else
        (let c1 = c\<lparr>lastMousePosition := pageY\<rparr>;
             c2 = addEventListener ''mousemove'' (fresh c1) (c1\<lparr>mouseMoveListener := Some (fresh c1)\<rparr>);
             c3 = c2\<lparr>fresh := Suc (fresh c2)\<rparr>;
             c4 = addEventListener ''mouseup'' (fresh c3) (c3\<lparr>mouseUpListener := Some (fresh c3)\<rparr>)
         in c4\<lparr>fresh := Suc (fresh c4)\<rparr>))"

text \<open>The first part of \<^verbatim>\<open>_handleMouseUp\<close>: the two guarded removals and the two resets.\<close>

definition remove_listeners :: "InspectorNumber \<Rightarrow> InspectorNumber" where
  "remove_listeners c =
     (let c1 = (case mouseMoveListener c of
                  Some l \<Rightarrow> removeEventListener ''mousemove'' l c
                | None \<Rightarrow> c);
          c2 = (case mouseUpListener c1 of
                  Some l \<Rightarrow> removeEventListener ''mouseup'' l c1
                | None \<Rightarrow> c1);
          c3 = c2\<lparr>mouseMoveListener := None\<rparr>
      in c3\<lparr>mouseUpListener := None\<rparr>)"

definition handleMouseUp :: "js_runtime \<Rightarrow> InspectorNumber \<Rightarrow> InspectorNumber" where
  "handleMouseUp rt c = handleValueFinishChanged rt (remove_listeners c)"

text \<open>
  \<^verbatim>\<open>this._input?.blur()\<close>: when the ref is set and the field has the focus, the
  browser fires the blur event before \<^verbatim>\<open>blur()\<close> returns, and the field's
  \<^verbatim>\<open>onBlur\<close> runs \<^verbatim>\<open>_handleInputBlurred\<close>. The field has the focus exactly
  while \<^verbatim>\<open>_isFocused\<close> is set, by \<^verbatim>\<open>onFocus\<close> and \<^verbatim>\<open>onBlur\<close>.
\<close>

definition input_blur :: "js_runtime \<Rightarrow> InspectorNumber \<Rightarrow> InspectorNumber" where
  "input_blur rt c = (if input c \<and> isFocused c then handleInputBlurred rt c else c)"

definition handleEnterKeyPressed :: "js_runtime \<Rightarrow> InspectorNumber \<Rightarrow> InspectorNumber" where
  "handleEnterKeyPressed rt c = handleValueFinishChanged rt (input_blur rt c)"

section \<open>A runtime with exact arithmetic\<close>

text \<open>
  One runtime, to run the component on concrete inputs. It follows ECMAScript's
  definitions of the built-ins on the exact values: a result is not rounded to a
  double, and a number is rendered with its own decimal digits (at most 17
  significant ones) where the standard takes the shortest digits that read back as the
  same double. On the integers and short decimal fractions used below the two agree.
\<close>


fun exact_add :: "jsnum \<Rightarrow> jsnum \<Rightarrow> jsnum" where
  "exact_add NaN b = NaN"
| "exact_add a NaN = NaN"
| "exact_add PInf NInf = NaN"
| "exact_add NInf PInf = NaN"
| "exact_add PInf b = PInf"
| "exact_add a PInf = PInf"
| "exact_add NInf b = NInf"
| "exact_add a NInf = NInf"
| "exact_add (Fin x) (Fin y) = Fin (x + y)"

fun exact_neg :: "jsnum \<Rightarrow> jsnum" where
  "exact_neg NaN = NaN"
| "exact_neg PInf = NInf"
| "exact_neg NInf = PInf"
| "exact_neg (Fin x) = Fin (- x)"

definition exact_sub :: "jsnum \<Rightarrow> jsnum \<Rightarrow> jsnum" where
  "exact_sub a b = exact_add a (exact_neg b)"

text \<open>The sign of a number that is not NaN, zero counted as positive.\<close>

fun negative :: "jsnum \<Rightarrow> bool" where
  "negative NInf = True"
| "negative (Fin x) = (x < 0)"
| "negative a = False"

fun exact_mul :: "jsnum \<Rightarrow> jsnum \<Rightarrow> jsnum" where
  "exact_mul NaN b = NaN"
| "exact_mul a NaN = NaN"
| "exact_mul (Fin x) (Fin y) = Fin (x * y)"
| "exact_mul a b =
     (if a = Fin 0 \<or> b = Fin 0 then NaN
      else if negative a = negative b then PInf else NInf)"

fun exact_div :: "jsnum \<Rightarrow> jsnum \<Rightarrow> jsnum" where
  "exact_div NaN b = NaN"
| "exact_div a NaN = NaN"
| "exact_div (Fin x) (Fin y) =
     (if y \<noteq> 0 then Fin (x / y)
      else if x = 0 then NaN
      else if x < 0 then NInf else PInf)"
| "exact_div (Fin x) b = Fin 0"
| "exact_div a (Fin y) = (if negative a = negative (Fin y) then PInf else NInf)"
| "exact_div a b = NaN"

fun exact_round :: "jsnum \<Rightarrow> jsnum" where
  "exact_round (Fin x) = Fin (of_int \<lfloor>x + 1 / 2\<rfloor>)"
| "exact_round a = a"

fun exact_floor :: "jsnum \<Rightarrow> jsnum" where
  "exact_floor (Fin x) = Fin (of_int \<lfloor>x\<rfloor>)"
| "exact_floor a = a"

fun exact_abs :: "jsnum \<Rightarrow> jsnum" where
  "exact_abs (Fin x) = Fin \<bar>x\<bar>"
| "exact_abs NInf = PInf"
| "exact_abs a = a"

text \<open>
  The logarithm is not computed: evaluation leaves \<open>exact_log\<close> and \<open>exact_LN10\<close>
  as they stand.
\<close>

fun exact_log :: "jsnum \<Rightarrow> jsnum" where
  "exact_log (Fin x) = (if x < 0 then NaN else if x = 0 then NInf else Fin (ln x))"
| "exact_log PInf = PInf"
| "exact_log a = NaN"

declare exact_log.simps [code del]

definition exact_LN10 :: jsnum where
  "exact_LN10 = Fin (ln 10)"

declare exact_LN10_def [code del]

definition is_integer :: "real \<Rightarrow> bool" where
  "is_integer x = (x = of_int \<lfloor>x\<rfloor>)"

definition is_odd :: "real \<Rightarrow> bool" where
  "is_odd x = (is_integer x \<and> odd \<lfloor>x\<rfloor>)"

fun exact_pow :: "jsnum \<Rightarrow> jsnum \<Rightarrow> jsnum" where
  "exact_pow b NaN = NaN"
| "exact_pow b (Fin e) =
     (if e = 0 then Fin 1
      else case b of
        NaN \<Rightarrow> NaN
      | PInf \<Rightarrow> if e > 0 then PInf else Fin 0
      | NInf \<Rightarrow> if e > 0 then (if is_odd e then NInf else PInf) else Fin 0
      | Fin x \<Rightarrow>
          if x = 0 then (if e > 0 then Fin 0 else PInf)
          else if is_integer e then Fin (x powi \<lfloor>e\<rfloor>)
          else if x < 0 then NaN
          else Fin (x powr e))"
| "exact_pow NaN e = NaN"
| "exact_pow (Fin x) PInf =
     (if \<bar>x\<bar> > 1 then PInf else if \<bar>x\<bar> = 1 then NaN else Fin 0)"
| "exact_pow (Fin x) NInf =
     (if \<bar>x\<bar> > 1 then Fin 0 else if \<bar>x\<bar> = 1 then NaN else PInf)"
| "exact_pow b PInf = PInf"
| "exact_pow b NInf = Fin 0"

subsection \<open>Numbers to text\<close>

definition digit_char :: "nat \<Rightarrow> char" where
  "digit_char d = ''0123456789'' ! d"

fun show_nat :: "nat \<Rightarrow> string" where
  "show_nat n = (if n < 10 then [digit_char n] else show_nat (n div 10) @ [digit_char (n mod 10)])"

declare show_nat.simps [simp del]

text \<open>
  For x > 0: the mantissa m in [1, 10) and the exponent n with x = m * 10^(n - 1),
  found in at most the given number of steps; the rendering allows 400, more than the
  decimal exponent of any double.
\<close>

fun to_mantissa :: "nat \<Rightarrow> real \<Rightarrow> real \<times> int" where
  "to_mantissa 0 x = (x, 1)"
| "to_mantissa (Suc f) x =
     (if x \<ge> 10 then (let (m, n) = to_mantissa f (x / 10) in (m, n + 1))
      else if x < 1 then (let (m, n) = to_mantissa f (x * 10) in (m, n - 1))
      else (x, 1))"

text \<open>The decimal digits of a mantissa, as many as it has and at most the given number.\<close>

fun mantissa_digits :: "nat \<Rightarrow> real \<Rightarrow> nat list" where
  "mantissa_digits 0 m = []"
| "mantissa_digits (Suc f) m =
     (let d = nat \<lfloor>m\<rfloor>; r = m - real d
      in d # (if r = 0 then [] else mantissa_digits f (r * 10)))"

definition format_digits :: "nat list \<Rightarrow> int \<Rightarrow> string" where
  "format_digits ds n =
     (let k = int (length ds); s = map digit_char ds
      in if k \<le> n \<and> n \<le> 21 then s @ replicate (nat (n - k)) CHR ''0''
         else if 0 < n \<and> n \<le> 21 then take (nat n) s @ ''.'' @ drop (nat n) s
         else if - 6 < n \<and> n \<le> 0 then ''0.'' @ replicate (nat (- n)) CHR ''0'' @ s
         else
           (let e = n - 1;
                es = (if e < 0 then ''-'' else ''+'') @ show_nat (nat \<bar>e\<bar>)
            in if k = 1 then s @ ''e'' @ es
               else take 1 s @ ''.'' @ drop 1 s @ ''e'' @ es))"

fun exact_toString :: "jsnum \<Rightarrow> string" where
  "exact_toString NaN = ''NaN''"
| "exact_toString PInf = ''Infinity''"
| "exact_toString NInf = ''-Infinity''"
| "exact_toString (Fin x) =
     (if x = 0 then ''0''
      else
        (let (m, n) = to_mantissa 400 \<bar>x\<bar>
         in (if x < 0 then ''-'' else []) @ format_digits (mantissa_digits 17 m) n))"

fun exact_toFixed :: "jsnum \<Rightarrow> nat \<Rightarrow> string" where
  "exact_toFixed (Fin x) f =
     (if \<bar>x\<bar> \<ge> 10 ^ 21 then exact_toString (Fin x)
      else
        (let n = nat \<lfloor>\<bar>x\<bar> * 10 ^ f + 1 / 2\<rfloor>;
             m = show_nat n;
             m1 = (if f = 0 then m
                   else
                     (let z = replicate (Suc f - length m) CHR ''0'' @ m;
                          k = length z
                      in take (k - f) z @ ''.'' @ drop (k - f) z))
         in (if x < 0 then ''-'' else []) @ m1))"
| "exact_toFixed a f = exact_toString a"

declare exact_toString.simps [simp del] exact_toFixed.simps [simp del]

subsection \<open>Text to numbers\<close>

definition digit_of :: "char \<Rightarrow> nat option" where
  "digit_of c = (let i = indexOf ''0123456789'' c in if i < 0 then None else Some (nat i))"

definition is_digit :: "char \<Rightarrow> bool" where
  "is_digit c = (digit_of c \<noteq> None)"

fun digits_value :: "nat \<Rightarrow> string \<Rightarrow> nat" where
  "digits_value acc [] = acc"
| "digits_value acc (c # cs) = digits_value (acc * 10 + (case digit_of c of Some d \<Rightarrow> d | None \<Rightarrow> 0)) cs"

definition is_space :: "char \<Rightarrow> bool" where
  "is_space c = (c = CHR '' '' \<or> c = CHR 0x09 \<or> c = CHR 0x0A \<or> c = CHR 0x0B \<or> c = CHR 0x0C \<or> c = CHR 0x0D)"

text \<open>The exponent part at the start of a text, 0 when there is none.\<close>

definition exponent_part :: "string \<Rightarrow> int" where
  "exponent_part s =
     (case s of
        [] \<Rightarrow> 0
      | c # r \<Rightarrow>
          if c = CHR ''e'' \<or> c = CHR ''E'' then
            (case r of
               [] \<Rightarrow> 0
             | d # r' \<Rightarrow>
                 if d = CHR ''-'' then - int (digits_value 0 (takeWhile is_digit r'))
                 else if d = CHR ''+'' then int (digits_value 0 (takeWhile is_digit r'))
                 else int (digits_value 0 (takeWhile is_digit r)))
          else 0)"

text \<open>An unsigned decimal literal at the start of a text; \<open>None\<close> when there is none.\<close>

definition unsigned_literal :: "string \<Rightarrow> jsnum option" where
  "unsigned_literal s =
     (if take 8 s = ''Infinity'' then Some PInf
      else
        (let ip = takeWhile is_digit s;
             r = dropWhile is_digit s;
             fp = (case r of
                     [] \<Rightarrow> []
                   | c # r' \<Rightarrow> if c = CHR ''.'' then takeWhile is_digit r' else []);
             r2 = (case r of
                     [] \<Rightarrow> []
                   | c # r' \<Rightarrow> if c = CHR ''.'' then dropWhile is_digit r' else r)
         in if ip = [] \<and> fp = [] then None
            else
              Some (Fin ((real (digits_value 0 ip) + real (digits_value 0 fp) / 10 ^ length fp)
                         * 10 powi exponent_part r2))))"

definition exact_parseFloat :: "string \<Rightarrow> jsnum" where
  "exact_parseFloat s =
     (let t = dropWhile is_space s
      in case t of
           [] \<Rightarrow> NaN
         | c # r \<Rightarrow>
             if c = CHR ''-'' then
               (case unsigned_literal r of None \<Rightarrow> NaN | Some v \<Rightarrow> exact_neg v)
             else if c = CHR ''+'' then
               (case unsigned_literal r of None \<Rightarrow> NaN | Some v \<Rightarrow> v)
             else
               (case unsigned_literal t of None \<Rightarrow> NaN | Some v \<Rightarrow> v))"

definition exact_runtime :: js_runtime where
  "exact_runtime =
     \<lparr>num_toString = exact_toString, num_toFixed = exact_toFixed,
      parseFloat = exact_parseFloat,
      num_add = exact_add, num_sub = exact_sub, num_mul = exact_mul, num_div = exact_div,
      Math_pow = exact_pow, Math_round = exact_round, Math_floor = exact_floor,
      Math_log = exact_log, Math_abs = exact_abs, Math_LN10 = exact_LN10\<rparr>"

section \<open>Notions of the specification\<close>

text \<open>
  \<^verbatim>\<open>Math.max\<close> and \<^verbatim>\<open>Math.min\<close> of two numbers (NaN when either is), and the clamp
  of the specification, \<open>clamp(v, m, M)\<close>: v raised to m, then lowered to M.
\<close>

fun num_max :: "jsnum \<Rightarrow> jsnum \<Rightarrow> jsnum" where
  "num_max NaN b = NaN"
| "num_max a NaN = NaN"
| "num_max a b = (if num_lt a b then b else a)"

fun num_min :: "jsnum \<Rightarrow> jsnum \<Rightarrow> jsnum" where
  "num_min NaN b = NaN"
| "num_min a NaN = NaN"
| "num_min a b = (if num_lt b a then b else a)"

definition clamp_spec :: "jsnum \<Rightarrow> jsnum \<Rightarrow> jsnum \<Rightarrow> jsnum" where
  "clamp_spec v m M = num_min (num_max v m) M"

text \<open>The effects that take a listener off the document.\<close>

fun is_removal :: "effect \<Rightarrow> bool" where
  "is_removal (RemoveEventListener ty l) = True"
| "is_removal e = False"

section \<open>A field to run\<close>

text \<open>
  A light whose intensity is 0, edited between 0 and 10 with no explicit step, both
  callbacks given; the field is constructed, rendered (the ref is set) and mounted.
\<close>

definition light_props :: IInspectorNumberProps where
  "light_props =
     \<lparr>property = ''intensity'', step = None, min_p = Some (Fin 0), max_p = Some (Fin 10),
      defaultValue = None, onChange = True, onFinishChange = True\<rparr>"

definition light :: "string \<Rightarrow> jsval" where
  "light = (\<lambda>k. Undefined)(''intensity'' := Number (Fin 0))"

definition raw_field :: InspectorNumber where
  "raw_field = projr (constructor exact_runtime light_props light 1)"

definition field :: InspectorNumber where
  "field = componentDidMount (set_input_ref True raw_field)"

text \<open>The same props with an explicit step of one half, and with an explicit step of 0.\<close>

definition half_step_props :: IInspectorNumberProps where
  "half_step_props = light_props\<lparr>step := Some (Fin (1 / 2))\<rparr>"

definition zero_step_props :: IInspectorNumberProps where
  "zero_step_props = light_props\<lparr>step := Some (Fin 0)\<rparr>"

text \<open>A lamp whose intensity is 250.\<close>

definition lamp :: "string \<Rightarrow> jsval" where
  "lamp = (\<lambda>k. Undefined)(''intensity'' := Number (Fin 250))"

section \<open>Properties of the handlers\<close>

lemmas handler_defs = emit_def read_property_def write_property_def setState_def

subsection \<open>Value changes\<close>

lemma apply_min_max_clamp:
  "v \<noteq> NaN \<Longrightarrow> m \<noteq> NaN \<Longrightarrow> M \<noteq> NaN \<Longrightarrow> min_p p = Some m \<Longrightarrow> max_p p = Some M \<Longrightarrow>
   apply_min_max p v = clamp_spec v m M"
  by (cases v; cases m; cases M) (auto simp: apply_min_max_def clamp_spec_def num_gt_def)

lemma handleValueChanged_object:
  "text \<noteq> [] \<Longrightarrow>
   object (handleValueChanged rt text b c) =
     (object c)(property (props c) := Number (apply_min_max (props c) (parseFloat rt text)))"
  by (simp add: handleValueChanged_def handler_defs Let_def)

lemma handleValueChanged_props: "props (handleValueChanged rt text b c) = props c"
  by (simp add: handleValueChanged_def handler_defs Let_def)

lemma handleValueChanged_read:
  "text \<noteq> [] \<Longrightarrow>
   read_property (handleValueChanged rt text b c) =
     Number (apply_min_max (props c) (parseFloat rt text))"
  by (simp add: read_property_def handleValueChanged_object handleValueChanged_props)

lemma handleValueChanged_effects:
  "text \<noteq> [] \<Longrightarrow>
   effects (handleValueChanged rt text b c) =
     effects c
     @ (if onChange (props c)
        then [CallOnChange (apply_min_max (props c) (parseFloat rt text))] else [])
     @ [NotifyChange (TargetValue (Number (apply_min_max (props c) (parseFloat rt text)))) (ident c)]"
  by (simp add: handleValueChanged_def handler_defs Let_def)

lemma handleValueChanged_state:
  "text \<noteq> [] \<Longrightarrow>
   state_value (handleValueChanged rt text b c) =
     (if b then num_toString rt
                 (RoundToDecimal rt (apply_min_max (props c) (parseFloat rt text)) (precision c))
      else text)"
  by (simp add: handleValueChanged_def handler_defs Let_def)

lemma handleValueChanged_empty: "handleValueChanged rt [] b c = c\<lparr>state_value := []\<rparr>"
  by (simp add: handleValueChanged_def handler_defs)

subsection \<open>The commit\<close>

lemma commit_noop:
  "strict_eq (read_property c) (initialValue c) \<Longrightarrow> handleValueFinishChanged rt c = c"
  by (simp add: handleValueFinishChanged_def)

lemma commit_fires:
  "\<not> strict_eq (read_property c) (initialValue c) \<Longrightarrow>
   handleValueFinishChanged rt c =
     c\<lparr>effects := effects c
            @ (if onFinishChange (props c)
               then [CallOnFinishChange (read_property c) (initialValue c)] else [])
            @ [NotifyChange TargetObject (ident c)],
       initialValue := read_property c,
       state_value := getFinalValueString rt (precision c) (read_property c)\<rparr>"
  by (simp add: handleValueFinishChanged_def handler_defs Let_def)

lemma strict_eq_refl: "v \<noteq> Number NaN \<Longrightarrow> strict_eq v v"
proof (cases v)
  case (Number n)
  assume "v \<noteq> Number NaN"
  with Number show ?thesis by (cases n) simp_all
qed simp_all

text \<open>A commit right after a commit does nothing, unless the property holds NaN.\<close>

lemma commit_twice:
  assumes "read_property c \<noteq> Number NaN"
  shows "handleValueFinishChanged rt (handleValueFinishChanged rt c) = handleValueFinishChanged rt c"
proof (cases "strict_eq (read_property c) (initialValue c)")
  case True
  then show ?thesis by (simp add: commit_noop)
next
  case False
  let ?c' = "handleValueFinishChanged rt c"
  have "read_property ?c' = read_property c" and "initialValue ?c' = read_property c"
    by (simp_all add: commit_fires [OF False] read_property_def)
  with assms have "strict_eq (read_property ?c') (initialValue ?c')"
    by (simp add: strict_eq_refl)
  then show ?thesis by (rule commit_noop)
qed

lemma commit_frame:
  "object (handleValueFinishChanged rt c) = object c
   \<and> props (handleValueFinishChanged rt c) = props c
   \<and> precision (handleValueFinishChanged rt c) = precision c
   \<and> mouseMoveListener (handleValueFinishChanged rt c) = mouseMoveListener c
   \<and> mouseUpListener (handleValueFinishChanged rt c) = mouseUpListener c
   \<and> document_listeners (handleValueFinishChanged rt c) = document_listeners c"
  by (simp add: handleValueFinishChanged_def handler_defs Let_def)

lemma commit_removals:
  "filter is_removal (effects (handleValueFinishChanged rt c)) = filter is_removal (effects c)"
  by (simp add: handleValueFinishChanged_def handler_defs Let_def)

subsection \<open>The end of a drag\<close>

lemma remove_listeners_refs:
  "mouseMoveListener (remove_listeners c) = None \<and> mouseUpListener (remove_listeners c) = None"
  by (simp add: remove_listeners_def Let_def)

lemma remove_listeners_effects:
  "effects (remove_listeners c) =
     effects c
     @ (case mouseMoveListener c of Some l \<Rightarrow> [RemoveEventListener ''mousemove'' l] | None \<Rightarrow> [])
     @ (case mouseUpListener c of Some l \<Rightarrow> [RemoveEventListener ''mouseup'' l] | None \<Rightarrow> [])"
  by (simp add: remove_listeners_def removeEventListener_def emit_def Let_def split: option.splits)

lemma remove_listeners_document:
  "document_listeners (remove_listeners c) =
     (case mouseUpListener c of Some l \<Rightarrow> remove1 (''mouseup'', l) | None \<Rightarrow> id)
       ((case mouseMoveListener c of Some l \<Rightarrow> remove1 (''mousemove'', l) | None \<Rightarrow> id)
          (document_listeners c))"
  by (simp add: remove_listeners_def removeEventListener_def emit_def Let_def split: option.splits)

subsection \<open>Gestures\<close>

lemma handleSliderChanged_eq:
  "handleSliderChanged rt n c = handleValueChanged rt (num_toString rt n) True c"
  by (simp add: handleSliderChanged_def)

lemma mouseMove_object:
  "object (mouseMove rt pageY c) =
     object (handleValueChanged rt (num_toString rt (drag_value rt pageY c)) True c)"
  by (simp add: mouseMove_def Let_def)

lemma mouseMove_read:
  "read_property (mouseMove rt pageY c) =
     read_property (handleValueChanged rt (num_toString rt (drag_value rt pageY c)) True c)"
  by (simp add: mouseMove_def Let_def read_property_def)

lemma mouseMove_state:
  "state_value (mouseMove rt pageY c) =
     state_value (handleValueChanged rt (num_toString rt (drag_value rt pageY c)) True c)"
  by (simp add: mouseMove_def Let_def)

lemma mouseMove_effects:
  "effects (mouseMove rt pageY c) =
     effects (handleValueChanged rt (num_toString rt (drag_value rt pageY c)) True c)"
  by (simp add: mouseMove_def Let_def)

subsection \<open>The field, run\<close>

lemma exact_runtime_sel:
  "parseFloat exact_runtime = exact_parseFloat"
  "num_toString exact_runtime = exact_toString"
  "num_toFixed exact_runtime = exact_toFixed"
  by (simp_all add: exact_runtime_def)

lemma field_constructed: "constructor exact_runtime light_props light 1 = Inr raw_field"
proof -
  have "\<not> isl (constructor exact_runtime light_props light 1)"
    by code_simp
  then show ?thesis
    unfolding raw_field_def
    by (cases "constructor exact_runtime light_props light 1") simp_all
qed

lemma raw_field_facts:
  "initialValue raw_field = Number (Fin 0)"
  "precision raw_field = 0"
  "impliedStep raw_field = Fin 1"
  "state_value raw_field = ''0''"
  by code_simp+

lemma field_facts:
  "props field = light_props"
  "read_property field = Number (Fin 0)"
  "initialValue field = Number (Fin 0)"
  "precision field = 0"
  "impliedStep field = Fin 1"
  "state_value field = ''0''"
  "ident field = 1"
  "effects field = [Register 1 TargetObject]"
  "input field"
  by code_simp+

lemma light_props_sel:
  "min_p light_props = Some (Fin 0)" "max_p light_props = Some (Fin 10)"
  "onChange light_props" "onFinishChange light_props" "step light_props = None"
  "property light_props = ''intensity''"
  by (simp_all add: light_props_def)

lemma focused_facts:
  "props (handleInputFocused c) = props c"
  "read_property (handleInputFocused c) = read_property c"
  "effects (handleInputFocused c) = effects c"
  "precision (handleInputFocused c) = precision c"
  "ident (handleInputFocused c) = ident c"
  "initialValue (handleInputFocused c) = initialValue c"
  "isFocused (handleInputFocused c)"
  "input (handleInputFocused c) = input c"
  by (simp_all add: handleInputFocused_def read_property_def)

lemma parse_samples:
  "exact_parseFloat ''15'' = Fin 15"
  "exact_parseFloat ''20'' = Fin 20"
  "exact_parseFloat ''2.55'' = Fin (51 / 20)"
  "exact_parseFloat ''5'' = Fin 5"
  "exact_parseFloat ''2.5'' = Fin (5 / 2)"
  "exact_parseFloat ''-'' = NaN"
  by code_simp+

lemma render_samples:
  "exact_toString (Fin 15) = ''15''"
  "exact_toString (Fin 20) = ''20''"
  "exact_toString (Fin 10) = ''10''"
  "exact_toString (Fin 3) = ''3''"
  "exact_toString (Fin (5 / 2)) = ''2.5''"
  "exact_toString (Fin (3 / 20000000)) = ''1.5e-7''"
  "exact_toString (Fin (1 / 10000000)) = ''1e-7''"
  "exact_toString (Fin 1000000000000000000000) = ''1e+21''"
  "exact_toString (Fin 5) = ''5''"
  "exact_toString (Fin 1) = ''1''"
  "exact_toFixed (Fin (5 / 2)) 0 = ''3''"
  by code_simp+

subsection \<open>The decimal count\<close>

lemma indexOf_absent: "c \<notin> set s \<Longrightarrow> indexOf s c = - 1"
  by (induction s) (auto simp: Let_def)

lemma indexOf_first: "c \<notin> set a \<Longrightarrow> indexOf (a @ c # b) c = int (length a)"
  by (induction a) (auto simp: Let_def)

lemma NumDecimals_no_dot: "CHR ''.'' \<notin> set (num_toString rt v) \<Longrightarrow> NumDecimals rt v = 0"
  by (simp add: NumDecimals_def Let_def indexOf_absent)

lemma NumDecimals_dot:
  "num_toString rt v = a @ CHR ''.'' # b \<Longrightarrow> CHR ''.'' \<notin> set a \<Longrightarrow> NumDecimals rt v = length b"
  by (simp add: NumDecimals_def Let_def indexOf_first)

subsection \<open>Construction\<close>

lemma constructor_Inr:
  assumes "constructor rt p obj i = Inr c" and "initialValue c = Number v"
  shows "impliedStep c = initial_impliedStep rt (step p) v"
    and "precision c = NumDecimals rt (impliedStep c)"
    and "state_value c = getFinalValueString rt (precision c) (initialValue c)"
  using assms
  by (auto simp: constructor_def Let_def split: jsval.splits option.splits)

text \<open>
  In exact arithmetic the else branch of the constructor computes, for a finite value
  other than 0, one tenth of the power of ten at or below the value's magnitude.
\<close>

lemma exact_default_step:
  assumes "x \<noteq> 0"
  shows "default_step exact_runtime (Fin x) = Fin (10 powi \<lfloor>log 10 \<bar>x\<bar>\<rfloor> / 10)"
proof -
  define k where "k = \<lfloor>ln \<bar>x\<bar> / ln 10\<rfloor>"
  have k: "\<lfloor>log 10 \<bar>x\<bar>\<rfloor> = k"
    by (simp add: k_def log_def)
  have s1: "default_step exact_runtime (Fin x) =
      exact_div (exact_pow (Fin 10) (exact_floor (Fin (ln \<bar>x\<bar> / ln 10)))) (Fin 10)"
    using assms
    by (simp add: default_step_def exact_runtime_def exact_LN10_def
        del: exact_pow.simps exact_floor.simps)
  have s2: "exact_floor (Fin (ln \<bar>x\<bar> / ln 10)) = Fin (of_int k)"
    by (simp add: k_def)
  have s3: "exact_div (exact_pow (Fin 10) (Fin (of_int k))) (Fin 10) = Fin (10 powi k / 10)"
    by (simp add: is_integer_def)
  show ?thesis
    by (simp only: s1 s2 s3 k)
qed

subsection \<open>What the handlers keep\<close>

lemma precision_kept:
  "precision (handleValueChanged rt text b c) = precision c"
  "precision (handleValueFinishChanged rt c) = precision c"
  "precision (handleInputFocused c) = precision c"
  "precision (handleInputBlurred rt c) = precision c"
  "precision (handleInputClicked y c) = precision c"
  "precision (mouseMove rt y c) = precision c"
  "precision (handleMouseUp rt c) = precision c"
  "precision (handleEnterKeyPressed rt c) = precision c"
  "precision (notifier_callback rt c) = precision c"
  by (simp_all add: handleValueChanged_def handleValueFinishChanged_def handleInputFocused_def
      handleInputBlurred_def handleInputClicked_def mouseMove_def handleMouseUp_def
      handleEnterKeyPressed_def input_blur_def notifier_callback_def remove_listeners_def
      addEventListener_def removeEventListener_def handler_defs Let_def split: option.splits)

section \<open>The claims\<close>

text \<open>
  C1. With NaN in the property the finish-change step fires twice in one transaction:
  "-" is typed, then Enter is pressed. The blur that Enter causes commits NaN against
  the baseline 0, and the explicit commit that follows fires again, NaN against NaN,
  since NaN is not equal to itself. With "5" typed instead it fires once.
\<close>

theorem finish_change_fires_twice_on_NaN:
  "effects (handleEnterKeyPressed exact_runtime
      (handleValueChanged exact_runtime ''-'' False (handleInputFocused field))) =
     [Register 1 TargetObject, CallOnChange NaN, NotifyChange (TargetValue (Number NaN)) 1,
      CallOnFinishChange (Number NaN) (Number (Fin 0)), NotifyChange TargetObject 1,
      CallOnFinishChange (Number NaN) (Number NaN), NotifyChange TargetObject 1]
   \<and> effects (handleEnterKeyPressed exact_runtime
      (handleValueChanged exact_runtime ''5'' False (handleInputFocused field))) =
     [Register 1 TargetObject, CallOnChange (Fin 5), NotifyChange (TargetValue (Number (Fin 5))) 1,
      CallOnFinishChange (Number (Fin 5)) (Number (Fin 0)), NotifyChange TargetObject 1]"
  by code_simp

text \<open>
  C2. With a minimum m and a maximum M configured, a non-empty text that parses to the
  number v makes the value-change handler write clamp(v, m, M) into the property, whether
  the text was typed, came from the slider or from a drag; the \<^verbatim>\<open>onChange\<close> callback,
  when given, is called with the same value.
\<close>

theorem clamped_value_written:
  assumes "text \<noteq> []" and "parseFloat rt text = v" and "v \<noteq> NaN"
    and "min_p (props c) = Some m" and "max_p (props c) = Some M"
    and "m \<noteq> NaN" and "M \<noteq> NaN"
  shows "read_property (handleValueChanged rt text fromMouseEvent c) = Number (clamp_spec v m M)
    \<and> effects (handleValueChanged rt text fromMouseEvent c) =
        effects c
        @ (if onChange (props c) then [CallOnChange (clamp_spec v m M)] else [])
        @ [NotifyChange (TargetValue (Number (clamp_spec v m M))) (ident c)]
    \<and> (num_toString rt n = text \<longrightarrow>
         read_property (handleSliderChanged rt n c) = Number (clamp_spec v m M))
    \<and> (num_toString rt (drag_value rt pageY c) = text \<longrightarrow>
         read_property (mouseMove rt pageY c) = Number (clamp_spec v m M))"
proof -
  have cl: "apply_min_max (props c) (parseFloat rt text) = clamp_spec v m M"
    using assms by (simp add: apply_min_max_clamp)
  show ?thesis
    using assms(1) cl
    by (simp add: handleValueChanged_read handleValueChanged_effects
        handleSliderChanged_eq mouseMove_read)
qed

theorem clamped_value_written_witness:
  "read_property (handleValueChanged exact_runtime ''15'' False field) = Number (Fin 10)
   \<and> effects (handleValueChanged exact_runtime ''15'' False field) =
       [Register 1 TargetObject, CallOnChange (Fin 10),
        NotifyChange (TargetValue (Number (Fin 10))) 1]
   \<and> read_property (handleSliderChanged exact_runtime (Fin 15) field) = Number (Fin 10)
   \<and> drag_value exact_runtime (Fin 80) (handleInputClicked (Fin 100) (handleInputFocused field)) = Fin 20
   \<and> read_property (mouseMove exact_runtime (Fin 80)
        (handleInputClicked (Fin 100) (handleInputFocused field))) = Number (Fin 10)"
proof -
  let ?d = "handleInputClicked (Fin 100) (handleInputFocused field)"
  have d: "props ?d = light_props" "drag_value exact_runtime (Fin 80) ?d = Fin 20"
    by code_simp+
  have cl: "clamp_spec (Fin 15) (Fin 0) (Fin 10) = Fin 10" "clamp_spec (Fin 20) (Fin 0) (Fin 10) = Fin 10"
    by (simp_all add: clamp_spec_def)
  have typed: "read_property (handleValueChanged exact_runtime ''15'' False field) = Number (Fin 10)
      \<and> effects (handleValueChanged exact_runtime ''15'' False field) =
       [Register 1 TargetObject, CallOnChange (Fin 10),
        NotifyChange (TargetValue (Number (Fin 10))) 1]
      \<and> read_property (handleSliderChanged exact_runtime (Fin 15) field) = Number (Fin 10)"
    using clamped_value_written [of "''15''" exact_runtime "Fin 15" field "Fin 0" "Fin 10" False "Fin 15" "Fin 0"]
    by (simp add: exact_runtime_sel parse_samples render_samples field_facts light_props_sel cl)
  have drag: "read_property (mouseMove exact_runtime (Fin 80) ?d) = Number (Fin 10)"
    using clamped_value_written [of "''20''" exact_runtime "Fin 20" ?d "Fin 0" "Fin 10" True _ "Fin 80"]
    by (simp add: exact_runtime_sel parse_samples render_samples d light_props_sel cl)
  from typed drag d(2) show ?thesis by simp
qed

text \<open>
  C3. The change notified on a typed value has the controller as its caller, but its
  target is the value just written, not the object the observers are registered for.
  Here "5" is typed into the field: the field registered for the object, and notifies
  the number 5.
\<close>

theorem value_change_notifies_the_value:
  "effects (handleValueChanged exact_runtime ''5'' False (handleInputFocused field)) =
     [Register 1 TargetObject, CallOnChange (Fin 5), NotifyChange (TargetValue (Number (Fin 5))) 1]
   \<and> ident field = 1
   \<and> NotifyChange TargetObject 1
       \<notin> set (effects (handleValueChanged exact_runtime ''5'' False (handleInputFocused field)))"
  by code_simp




text \<open>
  C5. The display-string rule. For \<^verbatim>\<open>null\<close> and \<^verbatim>\<open>undefined\<close> the string is
  "0"; for a number whose decimal count exceeds the field's precision it is
  \<^verbatim>\<open>toFixed\<close> of the number at the precision; for any other number it is the number's
  own rendering. The constructor, the commit and the notifier's callback all set the
  displayed string by this rule.
\<close>

theorem display_string_rule:
  "(v = Undefined \<or> v = Null \<longrightarrow> getFinalValueString rt prec v = ''0'')
   \<and> (prec < NumDecimals rt n \<longrightarrow> getFinalValueString rt prec (Number n) = num_toFixed rt n prec)
   \<and> (NumDecimals rt n \<le> prec \<longrightarrow> getFinalValueString rt prec (Number n) = num_toString rt n)
   \<and> (constructor rt p obj i = Inr c \<longrightarrow>
        state_value c = getFinalValueString rt (precision c) (initialValue c))
   \<and> (\<not> strict_eq (read_property d) (initialValue d) \<longrightarrow>
        state_value (handleValueFinishChanged rt d) =
          getFinalValueString rt (precision d) (read_property d))
   \<and> state_value (notifier_callback rt d) = getFinalValueString rt (precision d) (read_property d)"
proof -
  have "state_value c = getFinalValueString rt (precision c) (initialValue c)"
    if "constructor rt p obj i = Inr c"
    using that
    by (auto simp: constructor_def Let_def split: jsval.splits option.splits)
  then show ?thesis
    by (auto simp: getFinalValueString_def Let_def commit_fires notifier_callback_def setState_def)
qed

theorem display_string_rule_witness:
  "getFinalValueString exact_runtime 0 Null = ''0''
   \<and> getFinalValueString exact_runtime 0 Undefined = ''0''
   \<and> NumDecimals exact_runtime (Fin (5 / 2)) = 1
   \<and> getFinalValueString exact_runtime 0 (Number (Fin (5 / 2))) = ''3''
   \<and> getFinalValueString exact_runtime 1 (Number (Fin (5 / 2))) = ''2.5''
   \<and> constructor exact_runtime light_props light 1 = Inr raw_field
   \<and> state_value raw_field = ''0''
   \<and> state_value (handleValueFinishChanged exact_runtime
        (handleValueChanged exact_runtime ''2.5'' False field)) = ''3''"
proof -
  let ?t = "handleValueChanged exact_runtime ''2.5'' False field"
  have nd: "NumDecimals exact_runtime (Fin (5 / 2)) = 1"
    by code_simp
  have k: "getFinalValueString exact_runtime (precision raw_field) (initialValue raw_field) = ''0''"
    by code_simp
  have t: "\<not> strict_eq (read_property ?t) (initialValue ?t)"
    "getFinalValueString exact_runtime (precision ?t) (read_property ?t) = ''3''"
    by code_simp+
  have a: "getFinalValueString exact_runtime 0 Null = ''0''"
    using display_string_rule [of Null exact_runtime 0] by simp
  have b: "getFinalValueString exact_runtime 0 Undefined = ''0''"
    using display_string_rule [of Undefined exact_runtime 0] by simp
  have c: "getFinalValueString exact_runtime 0 (Number (Fin (5 / 2))) = ''3''"
    using display_string_rule [of _ exact_runtime 0 "Fin (5 / 2)"]
    by (simp add: nd exact_runtime_sel render_samples)
  have d: "getFinalValueString exact_runtime 1 (Number (Fin (5 / 2))) = ''2.5''"
    using display_string_rule [of _ exact_runtime 1 "Fin (5 / 2)"]
    by (simp add: nd exact_runtime_sel render_samples)
  have e: "state_value raw_field = ''0''"
    using display_string_rule [of _ exact_runtime _ _ light_props light 1 raw_field]
      field_constructed k
    by simp
  have f: "state_value (handleValueFinishChanged exact_runtime ?t) = ''3''"
    using display_string_rule [of _ exact_runtime _ _ _ _ _ _ ?t] t by simp
  from nd field_constructed a b c d e f show ?thesis by simp
qed

text \<open>
  C6. After the value-change handler has run on a non-empty text, the displayed string
  is the text as typed, not clamped, when the change did not come from a gesture; when it
  came from the slider or from a drag it is the rendering of the clamped value rounded
  to the field's precision, where rounding to d decimals is
  \<^verbatim>\<open>Math.round(x * 10^d) / 10^d\<close>.
\<close>

theorem displayed_string_after_change:
  assumes "text \<noteq> []"
  shows "state_value (handleValueChanged rt text False c) = text
    \<and> state_value (handleValueChanged rt text True c) =
        num_toString rt (RoundToDecimal rt (apply_min_max (props c) (parseFloat rt text)) (precision c))
    \<and> (num_toString rt n = text \<longrightarrow>
         state_value (handleSliderChanged rt n c) =
           num_toString rt (RoundToDecimal rt (apply_min_max (props c) (parseFloat rt text)) (precision c)))
    \<and> (num_toString rt (drag_value rt pageY c) = text \<longrightarrow>
         state_value (mouseMove rt pageY c) =
           num_toString rt (RoundToDecimal rt (apply_min_max (props c) (parseFloat rt text)) (precision c)))
    \<and> RoundToDecimal rt x d =
        num_div rt (Math_round rt (num_mul rt x (Math_pow rt (Fin 10) (Fin (real d)))))
          (Math_pow rt (Fin 10) (Fin (real d)))"
  using assms
  by (simp add: handleValueChanged_state handleSliderChanged_eq mouseMove_state
      RoundToDecimal_def Let_def)

theorem displayed_string_after_change_witness:
  "state_value (handleValueChanged exact_runtime ''15'' False field) = ''15''
   \<and> state_value (handleValueChanged exact_runtime ''15'' True field) = ''10''
   \<and> state_value (handleSliderChanged exact_runtime (Fin 15) field) = ''10''
   \<and> state_value (handleValueChanged exact_runtime ''2.55'' False field) = ''2.55''
   \<and> state_value (handleValueChanged exact_runtime ''2.55'' True field) = ''3''
   \<and> state_value (mouseMove exact_runtime (Fin 80)
        (handleInputClicked (Fin 100) (handleInputFocused field))) = ''10''"
proof -
  let ?d = "handleInputClicked (Fin 100) (handleInputFocused field)"
  have d: "props ?d = light_props" "drag_value exact_runtime (Fin 80) ?d = Fin 20" "precision ?d = 0"
    by code_simp+
  have r: "apply_min_max light_props (Fin 15) = Fin 10"
    "apply_min_max light_props (Fin 20) = Fin 10"
    "apply_min_max light_props (Fin (51 / 20)) = Fin (51 / 20)"
    "exact_toString (RoundToDecimal exact_runtime (Fin 10) 0) = ''10''"
    "exact_toString (RoundToDecimal exact_runtime (Fin (51 / 20)) 0) = ''3''"
    by code_simp+
  have a: "state_value (handleValueChanged exact_runtime ''15'' False field) = ''15''
      \<and> state_value (handleValueChanged exact_runtime ''15'' True field) = ''10''
      \<and> state_value (handleSliderChanged exact_runtime (Fin 15) field) = ''10''"
    using displayed_string_after_change [of "''15''" exact_runtime field "Fin 15" "Fin 0" NaN 0]
    by (simp add: exact_runtime_sel parse_samples render_samples field_facts r)
  have b: "state_value (handleValueChanged exact_runtime ''2.55'' False field) = ''2.55''
      \<and> state_value (handleValueChanged exact_runtime ''2.55'' True field) = ''3''"
    using displayed_string_after_change [of "''2.55''" exact_runtime field "Fin 15" "Fin 0" NaN 0]
    by (simp add: exact_runtime_sel parse_samples render_samples field_facts r)
  have c: "state_value (mouseMove exact_runtime (Fin 80) ?d) = ''10''"
    using displayed_string_after_change [of "''20''" exact_runtime ?d "Fin 15" "Fin 80" NaN 0]
    by (simp add: exact_runtime_sel parse_samples render_samples d r)
  from a b c show ?thesis by simp
qed

text \<open>
  C7. A text that does not parse is not left aside: \<^verbatim>\<open>parseFloat\<close> gives NaN, no
  comparison with the bounds holds for NaN, and the handler writes NaN into the property,
  calls \<^verbatim>\<open>onChange\<close> with it and notifies. Here "-" is typed into the field, whose
  property held 0.
\<close>

theorem unparseable_text_is_written:
  "read_property (handleInputFocused field) = Number (Fin 0)
   \<and> read_property (handleValueChanged exact_runtime ''-'' False (handleInputFocused field)) =
       Number NaN
   \<and> effects (handleValueChanged exact_runtime ''-'' False (handleInputFocused field)) =
       effects (handleInputFocused field)
       @ [CallOnChange NaN, NotifyChange (TargetValue (Number NaN)) 1]
   \<and> state_value (handleValueChanged exact_runtime ''-'' False (handleInputFocused field)) = ''-''"
  by code_simp

text \<open>
  C8. Rounding for display never changes the stored value. A change that comes from a
  gesture writes the clamped parsed value itself into the property, and only the displayed
  string is rounded to the precision; a refresh of the display, by the commit or by the
  notifier's callback, leaves the object as it is.
\<close>

theorem display_rounding_keeps_stored_value:
  "(text \<noteq> [] \<longrightarrow>
      read_property (handleValueChanged rt text True c) =
        Number (apply_min_max (props c) (parseFloat rt text))
      \<and> state_value (handleValueChanged rt text True c) =
        num_toString rt (RoundToDecimal rt (apply_min_max (props c) (parseFloat rt text)) (precision c)))
   \<and> object (handleSliderChanged rt n c) = object (handleValueChanged rt (num_toString rt n) True c)
   \<and> object (mouseMove rt pageY c) =
       object (handleValueChanged rt (num_toString rt (drag_value rt pageY c)) True c)
   \<and> object (notifier_callback rt c) = object c
   \<and> object (handleValueFinishChanged rt c) = object c
   \<and> object (setState (getFinalValueString rt (precision c) v) c) = object c"
  by (simp add: handleValueChanged_read handleValueChanged_state handleSliderChanged_eq
      mouseMove_object commit_frame notifier_callback_def setState_def)

theorem display_rounding_keeps_stored_value_witness:
  "read_property (handleValueChanged exact_runtime ''2.55'' True field) = Number (Fin (51 / 20))
   \<and> state_value (handleValueChanged exact_runtime ''2.55'' True field) = ''3''"
proof -
  have r: "exact_toString (RoundToDecimal exact_runtime (Fin (51 / 20)) 0) = ''3''"
    "apply_min_max light_props (Fin (51 / 20)) = Fin (51 / 20)"
    by code_simp+
  show ?thesis
    using display_rounding_keeps_stored_value [of "''2.55''" exact_runtime field]
    by (simp add: exact_runtime_sel parse_samples field_facts r)
qed

text \<open>
  C9. The end of a drag is guarded and can be repeated. \<^verbatim>\<open>_handleMouseUp\<close> takes
  the mousemove and the mouseup listener off the document only when its reference to
  each is set, and resets both references; called again it removes nothing and leaves
  the document's listeners as they are. Having removed the listeners it runs the commit.
\<close>

theorem mouse_up_guarded_teardown:
  "mouseMoveListener (handleMouseUp rt c) = None
   \<and> mouseUpListener (handleMouseUp rt c) = None
   \<and> filter is_removal (effects (handleMouseUp rt c)) =
       filter is_removal (effects c)
       @ (case mouseMoveListener c of Some l \<Rightarrow> [RemoveEventListener ''mousemove'' l] | None \<Rightarrow> [])
       @ (case mouseUpListener c of Some l \<Rightarrow> [RemoveEventListener ''mouseup'' l] | None \<Rightarrow> [])
   \<and> document_listeners (handleMouseUp rt c) =
       (case mouseUpListener c of Some l \<Rightarrow> remove1 (''mouseup'', l) | None \<Rightarrow> id)
         ((case mouseMoveListener c of Some l \<Rightarrow> remove1 (''mousemove'', l) | None \<Rightarrow> id)
            (document_listeners c))
   \<and> filter is_removal (effects (handleMouseUp rt (handleMouseUp rt c))) =
       filter is_removal (effects (handleMouseUp rt c))
   \<and> document_listeners (handleMouseUp rt (handleMouseUp rt c)) =
       document_listeners (handleMouseUp rt c)
   \<and> handleMouseUp rt c = handleValueFinishChanged rt (remove_listeners c)"
proof -
  let ?u = "handleMouseUp rt c"
  have refs: "mouseMoveListener ?u = None" "mouseUpListener ?u = None"
    by (simp_all add: handleMouseUp_def commit_frame remove_listeners_refs)
  have rem: "filter is_removal (effects (handleMouseUp rt d)) =
      filter is_removal (effects d)
      @ (case mouseMoveListener d of Some l \<Rightarrow> [RemoveEventListener ''mousemove'' l] | None \<Rightarrow> [])
      @ (case mouseUpListener d of Some l \<Rightarrow> [RemoveEventListener ''mouseup'' l] | None \<Rightarrow> [])" for d
    by (simp add: handleMouseUp_def commit_removals remove_listeners_effects split: option.splits)
  have doc: "document_listeners (handleMouseUp rt d) =
      (case mouseUpListener d of Some l \<Rightarrow> remove1 (''mouseup'', l) | None \<Rightarrow> id)
        ((case mouseMoveListener d of Some l \<Rightarrow> remove1 (''mousemove'', l) | None \<Rightarrow> id)
           (document_listeners d))" for d
    by (simp add: handleMouseUp_def commit_frame remove_listeners_document)
  have again: "filter is_removal (effects (handleMouseUp rt ?u)) = filter is_removal (effects ?u)"
    by (simp add: rem [of ?u] refs)
  have doc_again: "document_listeners (handleMouseUp rt ?u) = document_listeners ?u"
    by (simp add: doc [of ?u] refs)
  show ?thesis
    using refs rem [of c] doc [of c] again doc_again by (simp add: handleMouseUp_def)
qed



end
